theory Spec2Isabelle
  imports Main "HOL-Library.Word" "HOL-Library.AList"
begin

section \<open>Cursor management of the Mali framebuffer video driver\<close>

text \<open>
  A shallow embedding of \<^verbatim>\<open>src/video/mali-fbdev/SDL_malimouse.c\<close>: the hooks
  \<^verbatim>\<open>MALI_CreateCursor\<close>, \<^verbatim>\<open>MALI_FreeCursor\<close>, \<^verbatim>\<open>MALI_ShowCursor\<close>,
  \<^verbatim>\<open>MALI_MoveCursor\<close>, \<^verbatim>\<open>MALI_WarpMouse\<close> and \<^verbatim>\<open>MALI_WarpMouseGlobal\<close>.

  The C state is an explicit \<open>world\<close>: the heap of the objects the driver allocates,
  the mouse the host owns, the SDL error, and the trace of the host calls that have an
  effect outside the heap. A C pointer is an \<open>addr option\<close> (\<open>None\<close> is \<open>NULL\<close>), a C
  \<open>int\<close> is a 32-bit word which \<open>sint\<close> reads as a signed value and whose arithmetic
  wraps (C leaves signed overflow undefined; the wrapped value is what the two's
  complement multiplication of the target yields). Reading, writing or freeing an
  address that is not live is a \<open>fault\<close>, and a function that can fault returns
  \<open>fault + result\<close>.

  The functions of SDL that the driver calls (the allocator, the error functions, the
  mouse and display queries, \<^verbatim>\<open>SDL_ShowCursor\<close>, \<^verbatim>\<open>SDL_SendMouseMotion\<close>,
  \<^verbatim>\<open>SDL_WarpMouseInWindow\<close>, \<^verbatim>\<open>SDL_PremultiplyAlpha\<close>) are defined in other files.
  Each is a call that returns: what it answers is read from the world, and what it
  does outside the driver's heap is recorded as an entry of the trace. The one call
  that writes into the driver's heap, the pixel conversion, faults when it would write
  outside the block it is given.
  \<^verbatim>\<open>MALI_InitMouse\<close>, which installs the hooks and the default cursor, and the empty
  \<^verbatim>\<open>MALI_QuitMouse\<close> are not modelled.
\<close>

subsection \<open>Values and objects\<close>

type_synonym cint = "32 word"
type_synonym size_t = "64 word"
type_synonym addr = nat

text \<open>
  The fields of \<^verbatim>\<open>SDL_Surface\<close> that \<^verbatim>\<open>MALI_CreateCursor\<close> reads;
  \<open>surface_format\<close> is \<^verbatim>\<open>surface->format->format\<close>.
\<close>

record SDL_Surface =
  surface_format :: "32 word"
  surface_w :: cint
  surface_h :: cint
  surface_pixels :: "addr option"
  surface_pitch :: cint

record SDL_Cursor =
  cursor_next :: "addr option"
  driverdata :: "addr option"

text \<open>
  \<^verbatim>\<open>MALI_CursorData\<close> is declared in \<^verbatim>\<open>SDL_malimouse.h\<close>; the record has the
  fields the source assigns (\<open>cur_w\<close> and \<open>cur_h\<close> are its \<^verbatim>\<open>w\<close> and \<^verbatim>\<open>h\<close>).
  \<open>buffer_pitch\<close> and \<open>buffer_size\<close> hold the value of the \<^verbatim>\<open>int\<close> expression the
  source assigns to them; the conversion of \<open>buffer_size\<close> to \<^verbatim>\<open>size_t\<close>, which
  extends the sign, is made where the value is passed to \<^verbatim>\<open>SDL_malloc\<close>.
\<close>

record MALI_CursorData =
  hot_x :: cint
  hot_y :: cint
  cur_w :: cint
  cur_h :: cint
  buffer :: "addr option"
  buffer_pitch :: cint
  buffer_size :: cint

text \<open>A heap object; a pixel buffer is known by its size in bytes.\<close>

datatype obj =
    Cursor_obj SDL_Cursor
  | CursorData_obj MALI_CursorData
  | Buffer_obj nat

text \<open>The fields of \<^verbatim>\<open>SDL_Mouse\<close> the driver reads, and the recorded position.\<close>

record SDL_Mouse =
  mouseID :: "32 word"
  focus :: "addr option"
  cur_cursor :: "addr option"
  mouse_x :: cint
  mouse_y :: cint

datatype sdl_error = ENOMEM | Message string

datatype fault =
    Null_deref
  | Invalid_read addr
  | Invalid_write addr
  | Invalid_free addr
  | Out_of_bounds addr nat

text \<open>
  The host calls that act outside the heap, with their arguments, in call order.
  \<^verbatim>\<open>SDL_free\<close> is logged too, so that the order of releases can be read off.
\<close>

datatype call =
    Call_SDL_free addr
  | Call_SDL_PremultiplyAlpha cint cint "32 word" "addr option" cint "32 word" addr cint
  | Call_SDL_ShowCursor cint
  | Call_SDL_SendMouseMotion "addr option" "32 word" cint cint cint
  | Call_SDL_WarpMouseInWindow "addr option" cint cint

text \<open>
  \<open>mouse\<close> is what \<^verbatim>\<open>SDL_GetMouse()\<close> returns. \<open>alloc_plan\<close> gives the outcome of
  the next allocations (\<open>False\<close>: the allocator returns \<open>NULL\<close>; past the end of the
  plan every allocation succeeds). \<open>display_of\<close> is the answer of
  \<^verbatim>\<open>SDL_GetDisplayForWindow\<close> and \<open>show_result\<close> the value \<^verbatim>\<open>SDL_ShowCursor\<close>
  returns; both functions belong to the host.
\<close>

record world =
  mouse :: "SDL_Mouse option"
  heap :: "(addr \<times> obj) list"
  alloc_plan :: "bool list"
  display_of :: "addr \<Rightarrow> addr option"
  show_result :: cint
  sdl_err :: "sdl_error option"
  calls :: "call list"

definition bindF :: "fault + 'a \<Rightarrow> ('a \<Rightarrow> fault + 'b) \<Rightarrow> fault + 'b" where
  "bindF m f = (case m of Inl e \<Rightarrow> Inl e | Inr v \<Rightarrow> f v)"

subsection \<open>The allocator\<close>

primrec top_addr :: "(addr \<times> obj) list \<Rightarrow> addr" where
  "top_addr [] = 0"
| "top_addr (p # hp) = max (fst p) (top_addr hp)"

definition fresh_addr :: "(addr \<times> obj) list \<Rightarrow> addr" where
  "fresh_addr hp = Suc (top_addr hp)"

text \<open>
  Modelled from the spec: the allocator behind \<^verbatim>\<open>SDL_calloc\<close> and \<^verbatim>\<open>SDL_malloc\<close>
  (defined in \<^verbatim>\<open>src/stdlib/SDL_malloc.c\<close>). The spec says only that an allocation
  can fail; here \<open>alloc_plan\<close> decides, and an allocation that succeeds returns an
  address above every live one.
\<close>

definition alloc :: "obj \<Rightarrow> world \<Rightarrow> addr option \<times> world" where
  "alloc ob s =
     (case alloc_plan s of
        [] \<Rightarrow> (Some (fresh_addr (heap s)), s\<lparr>heap := (fresh_addr (heap s), ob) # heap s\<rparr>)
      | ok # plan \<Rightarrow>
          if ok
          then (Some (fresh_addr (heap s)),
                s\<lparr>heap := (fresh_addr (heap s), ob) # heap s, alloc_plan := plan\<rparr>)
          else (None, s\<lparr>alloc_plan := plan\<rparr>))"

text \<open>\<^verbatim>\<open>SDL_calloc(1, sizeof(*p))\<close>: the caller passes the zeroed object.\<close>

definition SDL_calloc :: "obj \<Rightarrow> world \<Rightarrow> addr option \<times> world" where
  "SDL_calloc ob s = alloc ob s"

text \<open>
  Modelled from the spec: \<^verbatim>\<open>SDL_malloc\<close> takes a \<^verbatim>\<open>size_t\<close>. A request above
  \<^verbatim>\<open>PTRDIFF_MAX\<close>, which is what a negative \<^verbatim>\<open>int\<close> becomes as a
  \<^verbatim>\<open>size_t\<close>, is an allocation that fails whatever the plan says; any other
  request is decided by the plan and yields a block of that many bytes.
\<close>

definition PTRDIFF_MAX :: int where
  "PTRDIFF_MAX = 2 ^ 63 - 1"

definition SDL_malloc :: "size_t \<Rightarrow> world \<Rightarrow> addr option \<times> world" where
  "SDL_malloc nbytes s =
     (if PTRDIFF_MAX < uint nbytes then (None, s\<lparr>alloc_plan := tl (alloc_plan s)\<rparr>)
      else alloc (Buffer_obj (unat nbytes)) s)"

text \<open>
  Modelled from the spec: \<^verbatim>\<open>SDL_free\<close> releases a live block, and the spec's "no
  double frees" is a fault here: freeing an address that is not live.
\<close>

definition SDL_free :: "addr \<Rightarrow> world \<Rightarrow> fault + world" where
  "SDL_free a s =
     (case map_of (heap s) a of
        None \<Rightarrow> Inl (Invalid_free a)
      | Some ob \<Rightarrow>
          Inr (s\<lparr>heap := AList.delete a (heap s), calls := calls s @ [Call_SDL_free a]\<rparr>))"

definition zero_cursor :: SDL_Cursor where
  "zero_cursor = \<lparr>cursor_next = None, driverdata = None\<rparr>"

definition zero_curdata :: MALI_CursorData where
  "zero_curdata =
     \<lparr>hot_x = 0, hot_y = 0, cur_w = 0, cur_h = 0, buffer = None,
      buffer_pitch = 0, buffer_size = 0\<rparr>"

subsection \<open>Reading and writing objects\<close>

definition load_cursor :: "addr \<Rightarrow> world \<Rightarrow> fault + SDL_Cursor" where
  "load_cursor a s =
     (case map_of (heap s) a of
        Some (Cursor_obj cur) \<Rightarrow> Inr cur
      | _ \<Rightarrow> Inl (Invalid_read a))"

definition load_curdata :: "addr \<Rightarrow> world \<Rightarrow> fault + MALI_CursorData" where
  "load_curdata a s =
     (case map_of (heap s) a of
        Some (CursorData_obj cd) \<Rightarrow> Inr cd
      | _ \<Rightarrow> Inl (Invalid_read a))"

definition modify_cursor :: "addr \<Rightarrow> (SDL_Cursor \<Rightarrow> SDL_Cursor) \<Rightarrow> world \<Rightarrow> fault + world" where
  "modify_cursor a f s =
     (case map_of (heap s) a of
        Some (Cursor_obj cur) \<Rightarrow> Inr (s\<lparr>heap := AList.update a (Cursor_obj (f cur)) (heap s)\<rparr>)
      | _ \<Rightarrow> Inl (Invalid_write a))"

definition modify_curdata ::
  "addr \<Rightarrow> (MALI_CursorData \<Rightarrow> MALI_CursorData) \<Rightarrow> world \<Rightarrow> fault + world" where
  "modify_curdata a f s =
     (case map_of (heap s) a of
        Some (CursorData_obj cd) \<Rightarrow>
          Inr (s\<lparr>heap := AList.update a (CursorData_obj (f cd)) (heap s)\<rparr>)
      | _ \<Rightarrow> Inl (Invalid_write a))"

subsection \<open>Host calls\<close>

text \<open>
  Modelled from the spec: \<^verbatim>\<open>SDL_OutOfMemory()\<close>, the macro for
  \<^verbatim>\<open>SDL_Error(SDL_ENOMEM)\<close>, "triggers an out-of-memory condition": it sets the
  error.
\<close>

definition SDL_OutOfMemory :: "world \<Rightarrow> world" where
  "SDL_OutOfMemory s = s\<lparr>sdl_err := Some ENOMEM\<rparr>"

text \<open>
  Modelled from the spec: \<^verbatim>\<open>SDL_SetError\<close> makes the operation fail with the given
  error: it records the message and returns \<open>-1\<close>, the status the caller returns.
\<close>

definition SDL_SetError :: "string \<Rightarrow> world \<Rightarrow> cint \<times> world" where
  "SDL_SetError msg s = (- 1, s\<lparr>sdl_err := Some (Message msg)\<rparr>)"

text \<open>
  Modelled from the spec: \<^verbatim>\<open>SDL_GetMouse()\<close> answers with the pointer subsystem,
  which may not exist.
\<close>

definition SDL_GetMouse :: "world \<Rightarrow> SDL_Mouse option" where
  "SDL_GetMouse s = mouse s"

text \<open>
  Modelled from the spec: \<^verbatim>\<open>SDL_GetDisplayForWindow\<close> resolves the display that
  owns the focused window, and the resolution can fail.
\<close>

definition SDL_GetDisplayForWindow :: "addr \<Rightarrow> world \<Rightarrow> addr option" where
  "SDL_GetDisplayForWindow window s = display_of s window"

text \<open>
  Modelled from the spec: \<^verbatim>\<open>SDL_ShowCursor\<close> is the display binding ("bind the
  cursor's image to that display's presentation surface"). The spec does not say what
  the call returns; the value is the parameter \<open>show_result\<close>.
\<close>

definition SDL_ShowCursor :: "cint \<Rightarrow> world \<Rightarrow> cint \<times> world" where
  "SDL_ShowCursor toggle s = (show_result s, s\<lparr>calls := calls s @ [Call_SDL_ShowCursor toggle]\<rparr>)"

text \<open>
  Modelled from the spec: \<^verbatim>\<open>SDL_SendMouseMotion\<close> synthesizes a motion event at a
  window, relative or absolute, for the given coordinates.
\<close>

definition SDL_SendMouseMotion ::
  "addr option \<Rightarrow> 32 word \<Rightarrow> cint \<Rightarrow> cint \<Rightarrow> cint \<Rightarrow> world \<Rightarrow> world" where
  "SDL_SendMouseMotion window mid relative x y s =
     s\<lparr>calls := calls s @ [Call_SDL_SendMouseMotion window mid relative x y]\<rparr>"

text \<open>
  Modelled from the spec: \<^verbatim>\<open>SDL_WarpMouseInWindow\<close> instructs the display to move
  the cursor's visual representation to window-local coordinates.
\<close>

definition SDL_WarpMouseInWindow :: "addr option \<Rightarrow> cint \<Rightarrow> cint \<Rightarrow> world \<Rightarrow> world" where
  "SDL_WarpMouseInWindow window x y s =
     s\<lparr>calls := calls s @ [Call_SDL_WarpMouseInWindow window x y]\<rparr>"

text \<open>The value of the enumerator in \<^verbatim>\<open>SDL_pixels.h\<close>.\<close>

definition SDL_PIXELFORMAT_ARGB8888 :: "32 word" where
  "SDL_PIXELFORMAT_ARGB8888 = 0x16362004"

text \<open>
  Modelled from the spec: \<^verbatim>\<open>SDL_PremultiplyAlpha\<close> is the conversion primitive,
  "treated as total"; it converts every pixel and writes \<open>height\<close> rows of
  \<open>width * 4\<close> bytes into the destination, row \<open>r\<close> at offset \<open>r * dst_pitch\<close>.
  \<open>writes_fit\<close> says that all these bytes lie inside a block of \<open>n\<close> bytes (a
  surface without pixels writes nothing). The pixel values are not modelled: a call
  whose writes fit is recorded with its dimensions, formats, addresses and pitches,
  and a call whose writes do not fit is a fault.
\<close>

definition writes_fit :: "cint \<Rightarrow> cint \<Rightarrow> cint \<Rightarrow> nat \<Rightarrow> bool" where
  "writes_fit width height dst_pitch n \<longleftrightarrow>
     sint width \<le> 0 \<or> sint height \<le> 0 \<or>
     (0 \<le> (sint height - 1) * sint dst_pitch \<and>
      (sint height - 1) * sint dst_pitch + sint width * 4 \<le> int n)"

definition SDL_PremultiplyAlpha ::
  "cint \<Rightarrow> cint \<Rightarrow> 32 word \<Rightarrow> addr option \<Rightarrow> cint \<Rightarrow> 32 word \<Rightarrow> addr \<Rightarrow> cint \<Rightarrow> world \<Rightarrow>
   fault + world" where
  "SDL_PremultiplyAlpha width height src_format src src_pitch dst_format dst dst_pitch s =
     (case map_of (heap s) dst of
        Some (Buffer_obj n) \<Rightarrow>
          if writes_fit width height dst_pitch n
          then Inr (s\<lparr>calls := calls s @
                 [Call_SDL_PremultiplyAlpha width height src_format src src_pitch
                    dst_format dst dst_pitch]\<rparr>)
          else Inl (Out_of_bounds dst n)
      | _ \<Rightarrow> Inl (Invalid_write dst))"

subsection \<open>The driver\<close>

text \<open>The \<^verbatim>\<open>cleanup:\<close> label of \<^verbatim>\<open>MALI_CreateCursor\<close>, with the locals it reads.\<close>

definition cleanup ::
  "addr option \<Rightarrow> addr option \<Rightarrow> addr option \<Rightarrow> world \<Rightarrow> fault + (addr option \<times> world)" where
  "cleanup ret curdata cursor s =
     (if ret = None then
        bindF
          (case curdata of
             None \<Rightarrow> Inr s
           | Some d \<Rightarrow>
               bindF (load_curdata d s) (\<lambda>cd.
               bindF (case buffer cd of None \<Rightarrow> Inr s | Some b \<Rightarrow> SDL_free b s) (\<lambda>s1.
               SDL_free d s1)))
          (\<lambda>s2.
        bindF (case cursor of None \<Rightarrow> Inr s2 | Some c \<Rightarrow> SDL_free c s2) (\<lambda>s3.
        Inr (ret, s3)))
      else Inr (ret, s))"

definition MALI_CreateCursor ::
  "SDL_Surface \<Rightarrow> cint \<Rightarrow> cint \<Rightarrow> world \<Rightarrow> fault + (addr option \<times> world)" where
  "MALI_CreateCursor surface hx hy s =
     (case SDL_calloc (Cursor_obj zero_cursor) s of (cursor, s1) \<Rightarrow>
      (case cursor of
         None \<Rightarrow> cleanup None None None (SDL_OutOfMemory s1)
       | Some c \<Rightarrow>
      (case SDL_calloc (CursorData_obj zero_curdata) s1 of (curdata, s2) \<Rightarrow>
      (case curdata of
         None \<Rightarrow> cleanup None None (Some c) (SDL_OutOfMemory s2)
       | Some d \<Rightarrow>
           bindF (modify_curdata d (\<lambda>cd. cd
                    \<lparr>hot_x := hx, hot_y := hy,
                     cur_w := surface_w surface, cur_h := surface_h surface,
                     buffer := None,
                     buffer_pitch := surface_w surface,
                     buffer_size := surface_w surface * surface_h surface * 4\<rparr>) s2) (\<lambda>s3.
           bindF (load_curdata d s3) (\<lambda>cd.
           (case SDL_malloc (scast (buffer_size cd)) s3 of (buf, s4) \<Rightarrow>
           bindF (modify_curdata d (\<lambda>cd. cd\<lparr>buffer := buf\<rparr>) s4) (\<lambda>s5.
           (case buf of
              None \<Rightarrow> cleanup None (Some d) (Some c) (SDL_OutOfMemory s5)
            | Some b \<Rightarrow>
                bindF (SDL_PremultiplyAlpha (surface_w surface) (surface_h surface)
                         (surface_format surface) (surface_pixels surface)
                         (surface_pitch surface)
                         SDL_PIXELFORMAT_ARGB8888 b (surface_w surface * 4) s5) (\<lambda>s6.
                bindF (modify_cursor c (\<lambda>cur. cur\<lparr>driverdata := Some d\<rparr>) s6) (\<lambda>s7.
                cleanup (Some c) (Some d) (Some c) s7)))))))))))"

text \<open>
  \<^verbatim>\<open>MALI_FreeCursor\<close>. \<^verbatim>\<open>curdata->buffer\<close> is read before
  \<^verbatim>\<open>cursor->driverdata\<close> is tested, so a cursor without driver data is a null
  dereference; \<^verbatim>\<open>cursor->driverdata\<close> is read again for the second test.
\<close>

definition MALI_FreeCursor :: "addr option \<Rightarrow> world \<Rightarrow> fault + world" where
  "MALI_FreeCursor cursor s =
     (case cursor of
        None \<Rightarrow> Inr s
      | Some c \<Rightarrow>
          bindF (load_cursor c s) (\<lambda>cur.
          (case driverdata cur of
             None \<Rightarrow> Inl Null_deref
           | Some curdata \<Rightarrow>
               bindF (load_curdata curdata s) (\<lambda>cd.
               bindF (case buffer cd of
                        None \<Rightarrow> Inr s
                      | Some b \<Rightarrow>
                          bindF (SDL_free b s) (\<lambda>s1.
                          modify_curdata curdata (\<lambda>cd. cd\<lparr>buffer := None\<rparr>) s1)) (\<lambda>s2.
               bindF (load_cursor c s2) (\<lambda>cur2.
               bindF (case driverdata cur2 of
                        None \<Rightarrow> Inr s2
                      | Some d \<Rightarrow> SDL_free d s2) (\<lambda>s3.
               SDL_free c s3)))))))"

text \<open>\<^verbatim>\<open>MALI_ShowCursor\<close>: \<open>ret\<close> starts at 0 and only a resolved display changes it.\<close>

definition MALI_ShowCursor :: "addr option \<Rightarrow> world \<Rightarrow> cint \<times> world" where
  "MALI_ShowCursor cursor s =
     (case SDL_GetMouse s of
        None \<Rightarrow> SDL_SetError ''No mouse.'' s
      | Some m \<Rightarrow>
          (case focus m of
             None \<Rightarrow> (0, s)
           | Some window \<Rightarrow>
               if cursor = None then (0, s)
               else
                 (case SDL_GetDisplayForWindow window s of
                    None \<Rightarrow> (0, s)
                  | Some display \<Rightarrow>
                      if cursor \<noteq> None then SDL_ShowCursor 1 s else SDL_ShowCursor 0 s)))"

text \<open>
  \<^verbatim>\<open>MALI_WarpMouseGlobal\<close>: the focus is read into \<^verbatim>\<open>window\<close> before the
  motion is sent, and the motion is sent with \<^verbatim>\<open>relative = 0\<close>.
\<close>

definition MALI_WarpMouseGlobal :: "cint \<Rightarrow> cint \<Rightarrow> world \<Rightarrow> cint \<times> world" where
  "MALI_WarpMouseGlobal x y s =
     (case SDL_GetMouse s of
        None \<Rightarrow> SDL_SetError ''No mouse or current cursor.'' s
      | Some m \<Rightarrow>
          if cur_cursor m \<noteq> None \<and> focus m \<noteq> None then
            (let window = focus m;
                 s1 = SDL_SendMouseMotion (focus m) (mouseID m) 0 x y s;
                 s2 = SDL_WarpMouseInWindow window x y s1
             in (0, s2))
          else SDL_SetError ''No mouse or current cursor.'' s)"

text \<open>\<^verbatim>\<open>MALI_WarpMouse\<close> returns nothing: the status of the global warp is dropped.\<close>

definition MALI_WarpMouse :: "addr option \<Rightarrow> cint \<Rightarrow> cint \<Rightarrow> world \<Rightarrow> world" where
  "MALI_WarpMouse window x y s = snd (MALI_WarpMouseGlobal x y s)"

text \<open>
  \<^verbatim>\<open>MALI_MoveCursor\<close>: the body only reads the mouse; the call of
  \<^verbatim>\<open>SDL_WarpMouseInWindow\<close> is commented out in the source.
\<close>

definition MALI_MoveCursor :: "addr option \<Rightarrow> world \<Rightarrow> world" where
  "MALI_MoveCursor cursor s =
     (case SDL_GetMouse s of
        None \<Rightarrow> s
      | Some m \<Rightarrow>
          if cur_cursor m \<noteq> None \<and> focus m \<noteq> None then (let window = focus m in s)
          else s)"

subsection \<open>Derived notions\<close>

text \<open>
  The image record \<^verbatim>\<open>MALI_CreateCursor\<close> has written when the pixel buffer
  allocation returned \<open>buf\<close>.
\<close>

definition new_curdata :: "SDL_Surface \<Rightarrow> cint \<Rightarrow> cint \<Rightarrow> addr option \<Rightarrow> MALI_CursorData" where
  "new_curdata surface hx hy buf =
     \<lparr>hot_x = hx, hot_y = hy, cur_w = surface_w surface, cur_h = surface_h surface,
      buffer = buf, buffer_pitch = surface_w surface,
      buffer_size = surface_w surface * surface_h surface * 4\<rparr>"

text \<open>The image a cursor handle owns: \<^verbatim>\<open>*(MALI_CursorData *) cursor->driverdata\<close>.\<close>

definition image_of :: "addr \<Rightarrow> world \<Rightarrow> MALI_CursorData option" where
  "image_of c s =
     (case map_of (heap s) c of
        Some (Cursor_obj cur) \<Rightarrow>
          (case driverdata cur of
             None \<Rightarrow> None
           | Some d \<Rightarrow>
               (case map_of (heap s) d of
                  Some (CursorData_obj cd) \<Rightarrow> Some cd
                | _ \<Rightarrow> None))
      | _ \<Rightarrow> None)"

text \<open>
  The number of bytes \<^verbatim>\<open>MALI_CreateCursor\<close> asks for when the \<^verbatim>\<open>int\<close> value of
  \<^verbatim>\<open>surface->w * surface->h * 4\<close> is not negative.
\<close>

definition requested_bytes :: "SDL_Surface \<Rightarrow> nat" where
  "requested_bytes surface = nat (sint (surface_w surface * surface_h surface * 4))"

subsection \<open>Concrete inputs\<close>

text \<open>
  A 2 by 3 ARGB surface, a mouse focused on window 7 (which display 9 shows), and a
  world with nothing allocated in which every allocation succeeds.
\<close>

definition example_surface :: SDL_Surface where
  "example_surface =
     \<lparr>surface_format = SDL_PIXELFORMAT_ARGB8888, surface_w = 2, surface_h = 3,
      surface_pixels = Some 100, surface_pitch = 8\<rparr>"

definition example_mouse :: SDL_Mouse where
  "example_mouse = \<lparr>mouseID = 0, focus = Some 7, cur_cursor = Some 1, mouse_x = 10, mouse_y = 20\<rparr>"

definition example_world :: world where
  "example_world =
     \<lparr>mouse = Some example_mouse, heap = [], alloc_plan = [],
      display_of = (\<lambda>window. if window = 7 then Some 9 else None),
      show_result = 0, sdl_err = None, calls = []\<rparr>"

text \<open>The world after \<^verbatim>\<open>MALI_CreateCursor(example_surface, 1, 1)\<close> in \<open>example_world\<close>.\<close>

definition example_created :: world where
  "example_created =
     example_world
       \<lparr>heap :=
          [(3, Buffer_obj 24),
           (2, CursorData_obj
                 \<lparr>hot_x = 1, hot_y = 1, cur_w = 2, cur_h = 3, buffer = Some 3,
                  buffer_pitch = 2, buffer_size = 24\<rparr>),
           (1, Cursor_obj \<lparr>cursor_next = None, driverdata = Some 2\<rparr>)],
        calls :=
          [Call_SDL_PremultiplyAlpha 2 3 SDL_PIXELFORMAT_ARGB8888 (Some 100) 8
             SDL_PIXELFORMAT_ARGB8888 3 8]\<rparr>"

text \<open>A surface whose \<^verbatim>\<open>w * h * 4\<close> is \<open>2 ^ 32\<close> and does not fit in an \<^verbatim>\<open>int\<close>.\<close>

definition wide_surface :: SDL_Surface where
  "wide_surface =
     \<lparr>surface_format = SDL_PIXELFORMAT_ARGB8888, surface_w = 32768, surface_h = 32768,
      surface_pixels = Some 100, surface_pitch = 131072\<rparr>"

text \<open>A handle whose image has no pixel buffer.\<close>

definition example_unbuffered :: world where
  "example_unbuffered =
     example_world
       \<lparr>heap :=
          [(2, CursorData_obj (new_curdata example_surface 1 1 None)),
           (1, Cursor_obj \<lparr>cursor_next = None, driverdata = Some 2\<rparr>)]\<rparr>"

section \<open>The heap\<close>

lemma top_addr_ge: "(a, ob) \<in> set hp \<Longrightarrow> a \<le> top_addr hp"
  by (induction hp) auto

lemma delete_absent: "k \<notin> fst ` set al \<Longrightarrow> AList.delete k al = al"
  by (induction al) (auto simp: AList.delete_eq)

lemma above_top_absent: "top_addr hp < k \<Longrightarrow> k \<notin> fst ` set hp"
  using top_addr_ge by fastforce

lemma map_of_above_top [simp]: "top_addr hp < k \<Longrightarrow> map_of hp k = None"
  by (simp add: map_of_eq_None_iff above_top_absent)

lemma delete_above_top [simp]: "top_addr hp < k \<Longrightarrow> AList.delete k hp = hp"
  by (rule delete_absent) (rule above_top_absent)

section \<open>Sizes\<close>

text \<open>The conversion of an \<^verbatim>\<open>int\<close> to \<^verbatim>\<open>size_t\<close> extends the sign.\<close>

lemma uint_scast_int:
  fixes x :: cint
  shows "uint (scast x :: size_t) = sint x mod 2 ^ 64"
proof -
  have "sint (scast x :: size_t) = sint x"
    by (rule sint_up_scast) (simp add: is_up)
  then show ?thesis
    by (simp add: uint_sint [of "scast x :: size_t"] take_bit_eq_mod)
qed

lemma uint_scast_nonneg:
  fixes x :: cint
  assumes "0 \<le> sint x"
  shows "uint (scast x :: size_t) = sint x"
proof -
  from sint_lt [of x] have "sint x < 2 ^ 64" by simp
  with assms have "sint x mod 2 ^ 64 = sint x" by simp
  then show ?thesis by (simp add: uint_scast_int)
qed

lemma unat_scast_nonneg:
  fixes x :: cint
  assumes "0 \<le> sint x"
  shows "unat (scast x :: size_t) = nat (sint x)"
  using uint_scast_nonneg [OF assms] by (simp add: unat_eq_nat_uint)

lemma uint_scast_negative:
  fixes x :: cint
  assumes "sint x < 0"
  shows "2 ^ 63 \<le> uint (scast x :: size_t)"
proof -
  from sint_ge [of x] have lo: "- (2 ^ 31) \<le> sint x" by simp
  have "sint x mod 2 ^ 64 = (sint x + 2 ^ 64) mod 2 ^ 64" by simp
  also have "\<dots> = sint x + 2 ^ 64"
    using assms lo by (intro mod_pos_pos_trivial) simp_all
  finally have "sint x mod 2 ^ 64 = sint x + 2 ^ 64" .
  then have "uint (scast x :: size_t) = sint x + 2 ^ 64" by (simp add: uint_scast_int)
  with lo show ?thesis by simp
qed

lemma malloc_nonneg:
  fixes x :: cint
  assumes "0 \<le> sint x"
  shows "SDL_malloc (scast x) s = alloc (Buffer_obj (nat (sint x))) s"
proof -
  from sint_lt [of x] have "sint x < 2 ^ 63" by simp
  with uint_scast_nonneg [OF assms] have "\<not> PTRDIFF_MAX < uint (scast x :: size_t)"
    by (simp add: PTRDIFF_MAX_def)
  then show ?thesis by (simp add: SDL_malloc_def unat_scast_nonneg [OF assms])
qed

lemma malloc_negative:
  fixes x :: cint
  assumes "sint x < 0"
  shows "SDL_malloc (scast x) s = (None, s\<lparr>alloc_plan := tl (alloc_plan s)\<rparr>)"
proof -
  from uint_scast_negative [OF assms] have "PTRDIFF_MAX < uint (scast x :: size_t)"
    by (simp add: PTRDIFF_MAX_def)
  then show ?thesis by (simp add: SDL_malloc_def)
qed

section \<open>Creation, path by path\<close>

lemma plan_cases:
  "(alloc_plan s = [] \<or> alloc_plan s = [True] \<or> alloc_plan s = [True, True] \<or>
    (\<exists>plan. alloc_plan s = True # True # True # plan)) \<or>
   (\<exists>plan. alloc_plan s = False # plan) \<or>
   (\<exists>plan. alloc_plan s = True # False # plan) \<or>
   (\<exists>plan. alloc_plan s = True # True # False # plan)"
proof (cases "alloc_plan s")
  case Nil
  then show ?thesis by simp
next
  case p1: (Cons b1 plan1)
  show ?thesis
  proof (cases plan1)
    case Nil
    with p1 show ?thesis by simp
  next
    case p2: (Cons b2 plan2)
    show ?thesis
    proof (cases plan2)
      case Nil
      with p1 p2 show ?thesis by simp
    next
      case (Cons b3 plan3)
      with p1 p2 show ?thesis by simp
    qed
  qed
qed

lemma failing_plan_cases:
  assumes "False \<in> set (take 3 (alloc_plan s))"
  shows "(\<exists>plan. alloc_plan s = False # plan) \<or>
         (\<exists>plan. alloc_plan s = True # False # plan) \<or>
         (\<exists>plan. alloc_plan s = True # True # False # plan)"
proof -
  from plan_cases [of s] assms show ?thesis by auto
qed

lemma succeeding_plan_cases:
  assumes "False \<notin> set (take 3 (alloc_plan s))"
  shows "alloc_plan s = [] \<or> alloc_plan s = [True] \<or> alloc_plan s = [True, True] \<or>
         (\<exists>plan. alloc_plan s = True # True # True # plan)"
proof -
  from plan_cases [of s] assms show ?thesis by auto
qed

lemma create_fails_first:
  assumes "alloc_plan s = False # plan"
  shows "MALI_CreateCursor surface hx hy s =
         Inr (None, s\<lparr>alloc_plan := plan, sdl_err := Some ENOMEM\<rparr>)"
  using assms
  by (simp add: MALI_CreateCursor_def SDL_calloc_def alloc_def cleanup_def bindF_def
      SDL_OutOfMemory_def)

lemma create_fails_second:
  assumes "alloc_plan s = True # False # plan"
  shows "MALI_CreateCursor surface hx hy s =
         Inr (None, s\<lparr>alloc_plan := plan, sdl_err := Some ENOMEM,
                      calls := calls s @ [Call_SDL_free (fresh_addr (heap s))]\<rparr>)"
  using assms
  by (simp add: MALI_CreateCursor_def SDL_calloc_def alloc_def cleanup_def bindF_def
      SDL_OutOfMemory_def SDL_free_def fresh_addr_def)

lemma create_fails_third:
  assumes "alloc_plan s = True # True # False # plan"
  shows "MALI_CreateCursor surface hx hy s =
         Inr (None, s\<lparr>alloc_plan := plan, sdl_err := Some ENOMEM,
                      calls := calls s @ [Call_SDL_free (Suc (fresh_addr (heap s))),
                                          Call_SDL_free (fresh_addr (heap s))]\<rparr>)"
proof (cases "0 \<le> sint (surface_w surface * surface_h surface * 4)")
  case True
  with assms show ?thesis
    by (simp add: MALI_CreateCursor_def SDL_calloc_def malloc_nonneg alloc_def cleanup_def
        bindF_def SDL_OutOfMemory_def SDL_free_def fresh_addr_def modify_curdata_def
        load_curdata_def zero_curdata_def)
next
  case False
  then have "sint (surface_w surface * surface_h surface * 4) < 0" by simp
  with assms show ?thesis
    by (simp add: MALI_CreateCursor_def SDL_calloc_def malloc_negative alloc_def cleanup_def
        bindF_def SDL_OutOfMemory_def SDL_free_def fresh_addr_def modify_curdata_def
        load_curdata_def zero_curdata_def)
qed

text \<open>
  The third allocation also fails, whatever the plan, when the \<^verbatim>\<open>int\<close> value of
  \<^verbatim>\<open>w * h * 4\<close> is negative.
\<close>

lemma create_fails_oversize:
  assumes "alloc_plan s = [] \<or> alloc_plan s = [True] \<or> (\<exists>plan. alloc_plan s = True # True # plan)"
    and "sint (surface_w surface * surface_h surface * 4) < 0"
  shows "MALI_CreateCursor surface hx hy s =
         Inr (None, s\<lparr>alloc_plan := drop 3 (alloc_plan s), sdl_err := Some ENOMEM,
                      calls := calls s @ [Call_SDL_free (Suc (fresh_addr (heap s))),
                                          Call_SDL_free (fresh_addr (heap s))]\<rparr>)"
  using assms
  by (auto simp add: MALI_CreateCursor_def SDL_calloc_def malloc_negative alloc_def cleanup_def
      bindF_def SDL_OutOfMemory_def SDL_free_def fresh_addr_def modify_curdata_def
      load_curdata_def zero_curdata_def drop_Suc)

text \<open>
  With the three allocations done, the conversion faults when the block is too small
  for the pixels it writes.
\<close>

lemma create_faults:
  assumes "alloc_plan s = [] \<or> alloc_plan s = [True] \<or> alloc_plan s = [True, True] \<or>
           (\<exists>plan. alloc_plan s = True # True # True # plan)"
    and "0 \<le> sint (surface_w surface * surface_h surface * 4)"
    and "\<not> writes_fit (surface_w surface) (surface_h surface) (surface_w surface * 4)
            (requested_bytes surface)"
  shows "MALI_CreateCursor surface hx hy s =
         Inl (Out_of_bounds (Suc (Suc (fresh_addr (heap s)))) (requested_bytes surface))"
  using assms
  by (auto simp add: MALI_CreateCursor_def SDL_calloc_def malloc_nonneg alloc_def cleanup_def
      bindF_def fresh_addr_def modify_curdata_def modify_cursor_def load_curdata_def
      zero_curdata_def zero_cursor_def SDL_PremultiplyAlpha_def requested_bytes_def)

lemma create_succeeds:
  assumes "alloc_plan s = [] \<or> alloc_plan s = [True] \<or> alloc_plan s = [True, True] \<or>
           (\<exists>plan. alloc_plan s = True # True # True # plan)"
    and "0 \<le> sint (surface_w surface * surface_h surface * 4)"
    and "writes_fit (surface_w surface) (surface_h surface) (surface_w surface * 4)
           (requested_bytes surface)"
  shows "MALI_CreateCursor surface hx hy s =
         Inr (Some (fresh_addr (heap s)),
              s\<lparr>heap :=
                   (Suc (Suc (fresh_addr (heap s))), Buffer_obj (requested_bytes surface)) #
                   (Suc (fresh_addr (heap s)),
                      CursorData_obj
                        (new_curdata surface hx hy (Some (Suc (Suc (fresh_addr (heap s))))))) #
                   (fresh_addr (heap s),
                      Cursor_obj
                        \<lparr>cursor_next = None, driverdata = Some (Suc (fresh_addr (heap s)))\<rparr>) #
                   heap s,
                 alloc_plan := drop 3 (alloc_plan s),
                 calls := calls s @
                   [Call_SDL_PremultiplyAlpha (surface_w surface) (surface_h surface)
                      (surface_format surface) (surface_pixels surface) (surface_pitch surface)
                      SDL_PIXELFORMAT_ARGB8888 (Suc (Suc (fresh_addr (heap s))))
                      (surface_w surface * 4)]\<rparr>)"
  using assms
  by (auto simp add: MALI_CreateCursor_def SDL_calloc_def malloc_nonneg alloc_def cleanup_def
      bindF_def fresh_addr_def modify_curdata_def modify_cursor_def load_curdata_def
      zero_curdata_def zero_cursor_def SDL_PremultiplyAlpha_def new_curdata_def
      requested_bytes_def)

lemma create_fails_result:
  assumes "False \<in> set (take 3 (alloc_plan s))"
    and "MALI_CreateCursor surface hx hy s = Inr (r, s')"
  shows "r = None" and "heap s' = heap s"
proof -
  consider (first) plan where "alloc_plan s = False # plan"
    | (second) plan where "alloc_plan s = True # False # plan"
    | (third) plan where "alloc_plan s = True # True # False # plan"
    using failing_plan_cases [OF assms(1)] by blast
  then have "r = None \<and> heap s' = heap s"
  proof cases
    case first
    from create_fails_first [OF first, of surface hx hy] assms(2) show ?thesis by simp
  next
    case second
    from create_fails_second [OF second, of surface hx hy] assms(2) show ?thesis by simp
  next
    case third
    from create_fails_third [OF third, of surface hx hy] assms(2) show ?thesis by simp
  qed
  then show "r = None" and "heap s' = heap s" by simp_all
qed

text \<open>A call that returns a handle has made its three allocations and written in bounds.\<close>

lemma create_returns_handle:
  assumes "MALI_CreateCursor surface hx hy s = Inr (Some c, s')"
  shows "alloc_plan s = [] \<or> alloc_plan s = [True] \<or> alloc_plan s = [True, True] \<or>
         (\<exists>plan. alloc_plan s = True # True # True # plan)"
    and "0 \<le> sint (surface_w surface * surface_h surface * 4)"
    and "writes_fit (surface_w surface) (surface_h surface) (surface_w surface * 4)
           (requested_bytes surface)"
proof -
  have plan: "False \<notin> set (take 3 (alloc_plan s))"
  proof
    assume "False \<in> set (take 3 (alloc_plan s))"
    from create_fails_result(1) [OF this assms] show False by simp
  qed
  from succeeding_plan_cases [OF plan]
  show shape: "alloc_plan s = [] \<or> alloc_plan s = [True] \<or> alloc_plan s = [True, True] \<or>
         (\<exists>plan. alloc_plan s = True # True # True # plan)" .
  show nonneg: "0 \<le> sint (surface_w surface * surface_h surface * 4)"
  proof (rule ccontr)
    assume "\<not> 0 \<le> sint (surface_w surface * surface_h surface * 4)"
    then have neg: "sint (surface_w surface * surface_h surface * 4) < 0" by simp
    from shape have "alloc_plan s = [] \<or> alloc_plan s = [True] \<or>
        (\<exists>plan. alloc_plan s = True # True # plan)" by auto
    from create_fails_oversize [OF this neg, of hx hy] assms show False by simp
  qed
  show "writes_fit (surface_w surface) (surface_h surface) (surface_w surface * 4)
           (requested_bytes surface)"
  proof (rule ccontr)
    assume "\<not> writes_fit (surface_w surface) (surface_h surface) (surface_w surface * 4)
           (requested_bytes surface)"
    from create_faults [OF shape nonneg this, of hx hy] assms show False by simp
  qed
qed

lemma image_of_created:
  assumes "MALI_CreateCursor surface hx hy s = Inr (Some c, s')"
  shows "c = fresh_addr (heap s)"
    and "image_of (fresh_addr (heap s)) s' =
           Some (new_curdata surface hx hy (Some (Suc (Suc (fresh_addr (heap s))))))"
    and "map_of (heap s') (Suc (Suc (fresh_addr (heap s)))) =
           Some (Buffer_obj (requested_bytes surface))"
    and "calls s' = calls s @
                   [Call_SDL_PremultiplyAlpha (surface_w surface) (surface_h surface)
                      (surface_format surface) (surface_pixels surface) (surface_pitch surface)
                      SDL_PIXELFORMAT_ARGB8888 (Suc (Suc (fresh_addr (heap s))))
                      (surface_w surface * 4)]"
proof -
  let ?c = "fresh_addr (heap s)"
  from create_succeeds [OF create_returns_handle [OF assms], of hx hy] assms
  have r: "c = ?c" and
    h: "heap s' = (Suc (Suc ?c), Buffer_obj (requested_bytes surface)) #
                 (Suc ?c, CursorData_obj (new_curdata surface hx hy (Some (Suc (Suc ?c))))) #
                 (?c, Cursor_obj \<lparr>cursor_next = None, driverdata = Some (Suc ?c)\<rparr>) # heap s"
    and c: "calls s' = calls s @
                   [Call_SDL_PremultiplyAlpha (surface_w surface) (surface_h surface)
                      (surface_format surface) (surface_pixels surface) (surface_pitch surface)
                      SDL_PIXELFORMAT_ARGB8888 (Suc (Suc ?c))
                      (surface_w surface * 4)]"
    by simp_all
  show "c = ?c" by (rule r)
  show "image_of ?c s' = Some (new_curdata surface hx hy (Some (Suc (Suc ?c))))"
    by (simp add: image_of_def h)
  show "map_of (heap s') (Suc (Suc ?c)) = Some (Buffer_obj (requested_bytes surface))"
    by (simp add: h)
  show "calls s' = calls s @
                   [Call_SDL_PremultiplyAlpha (surface_w surface) (surface_h surface)
                      (surface_format surface) (surface_pixels surface) (surface_pitch surface)
                      SDL_PIXELFORMAT_ARGB8888 (Suc (Suc ?c))
                      (surface_w surface * 4)]" by (rule c)
qed

lemma example_create:
  "MALI_CreateCursor example_surface 1 1 example_world = Inr (Some 1, example_created)"
proof -
  have "alloc_plan example_world = []" by (simp add: example_world_def)
  then have plan: "alloc_plan example_world = [] \<or> alloc_plan example_world = [True] \<or>
     alloc_plan example_world = [True, True] \<or>
     (\<exists>plan. alloc_plan example_world = True # True # True # plan)" by simp
  have nonneg: "0 \<le> sint (surface_w example_surface * surface_h example_surface * 4)"
    by (simp add: example_surface_def)
  have bytes: "requested_bytes example_surface = 24"
    by (simp add: requested_bytes_def example_surface_def)
  have fit: "writes_fit (surface_w example_surface) (surface_h example_surface)
      (surface_w example_surface * 4) (requested_bytes example_surface)"
    by (simp add: bytes) (simp add: writes_fit_def example_surface_def)
  from create_succeeds [OF plan nonneg fit, of 1 1] show ?thesis
    by (simp add: bytes) (simp add: example_world_def example_created_def example_surface_def
        fresh_addr_def new_curdata_def)
qed

section \<open>Release, case by case\<close>

lemma free_cursor_null: "MALI_FreeCursor None s = Inr s"
  by (simp add: MALI_FreeCursor_def)

lemma free_cursor_null_driverdata:
  assumes "map_of (heap s) c = Some (Cursor_obj cur)" and "driverdata cur = None"
  shows "MALI_FreeCursor (Some c) s = Inl Null_deref"
  using assms by (simp add: MALI_FreeCursor_def bindF_def load_cursor_def)

lemma free_cursor_without_buffer:
  assumes "map_of (heap s) c = Some (Cursor_obj cur)" and "driverdata cur = Some d"
    and "map_of (heap s) d = Some (CursorData_obj cd)" and "buffer cd = None"
  shows "MALI_FreeCursor (Some c) s =
         Inr (s\<lparr>heap := AList.delete c (AList.delete d (heap s)),
                calls := calls s @ [Call_SDL_free d, Call_SDL_free c]\<rparr>)"
proof -
  have "c \<noteq> d" using assms by auto
  then show ?thesis using assms
    by (simp add: MALI_FreeCursor_def bindF_def load_cursor_def load_curdata_def SDL_free_def
        delete_conv')
qed

lemma free_cursor_with_buffer:
  assumes "map_of (heap s) c = Some (Cursor_obj cur)" and "driverdata cur = Some d"
    and "map_of (heap s) d = Some (CursorData_obj cd)" and "buffer cd = Some b"
    and "map_of (heap s) b = Some (Buffer_obj n)"
  shows "MALI_FreeCursor (Some c) s =
         Inr (s\<lparr>heap := AList.delete c (AList.delete d (AList.delete b (heap s))),
                calls := calls s @ [Call_SDL_free b, Call_SDL_free d, Call_SDL_free c]\<rparr>)"
proof -
  have "c \<noteq> d" "b \<noteq> d" "b \<noteq> c" using assms by auto
  then show ?thesis using assms
    by (simp add: MALI_FreeCursor_def bindF_def load_cursor_def load_curdata_def SDL_free_def
        modify_curdata_def delete_conv' update_conv' delete_update_same)
qed

section \<open>Allocation failure\<close>

text \<open>
  Claim C1. When one of the (up to) three allocations of \<^verbatim>\<open>MALI_CreateCursor\<close>
  fails, the call does not fault, returns \<open>NULL\<close>, leaves the out-of-memory error
  set, and leaves the heap exactly as it was: what the call allocated it has freed.
  Besides the error it only called \<^verbatim>\<open>SDL_free\<close>, on pairwise different addresses
  that were not live before the call, so nothing is freed twice.
\<close>

theorem create_allocation_failure:
  assumes "False \<in> set (take 3 (alloc_plan s))"
  shows "\<exists>s' freed. MALI_CreateCursor surface hx hy s = Inr (None, s')
      \<and> sdl_err s' = Some ENOMEM
      \<and> heap s' = heap s
      \<and> calls s' = calls s @ map Call_SDL_free freed
      \<and> distinct freed \<and> set freed \<inter> fst ` set (heap s) = {}
      \<and> mouse s' = mouse s"
proof -
  consider (first) plan where "alloc_plan s = False # plan"
    | (second) plan where "alloc_plan s = True # False # plan"
    | (third) plan where "alloc_plan s = True # True # False # plan"
    using failing_plan_cases [OF assms] by blast
  then show ?thesis
  proof cases
    case first
    from create_fails_first [OF first, of surface hx hy] show ?thesis
      by (intro exI [where x = "s\<lparr>alloc_plan := plan, sdl_err := Some ENOMEM\<rparr>"]
          exI [where x = "[]"]) simp
  next
    case second
    let ?c = "fresh_addr (heap s)"
    have "?c \<notin> fst ` set (heap s)"
      by (rule above_top_absent) (simp add: fresh_addr_def)
    with create_fails_second [OF second, of surface hx hy] show ?thesis
      by (intro exI [where x = "s\<lparr>alloc_plan := plan, sdl_err := Some ENOMEM,
                      calls := calls s @ [Call_SDL_free ?c]\<rparr>"] exI [where x = "[?c]"]) simp
  next
    case third
    let ?c = "fresh_addr (heap s)"
    have "?c \<notin> fst ` set (heap s)" "Suc ?c \<notin> fst ` set (heap s)"
      by (rule above_top_absent, simp add: fresh_addr_def)+
    with create_fails_third [OF third, of surface hx hy] show ?thesis
      by (intro exI [where x = "s\<lparr>alloc_plan := plan, sdl_err := Some ENOMEM,
                      calls := calls s @ [Call_SDL_free (Suc ?c), Call_SDL_free ?c]\<rparr>"]
                exI [where x = "[Suc ?c, ?c]"]) simp
  qed
qed

text \<open>The third allocation fails in a world that holds a cursor already.\<close>

theorem create_allocation_failure_witness:
  "False \<in> set (take 3 (alloc_plan (example_created\<lparr>alloc_plan := [True, True, False]\<rparr>))) \<and>
   (\<exists>s' freed.
      MALI_CreateCursor example_surface 1 1 (example_created\<lparr>alloc_plan := [True, True, False]\<rparr>) =
        Inr (None, s')
      \<and> sdl_err s' = Some ENOMEM
      \<and> heap s' = heap example_created
      \<and> calls s' = calls example_created @ map Call_SDL_free freed
      \<and> distinct freed \<and> set freed \<inter> fst ` set (heap example_created) = {}
      \<and> mouse s' = mouse example_created)"
proof -
  have h: "False \<in> set (take 3 (alloc_plan (example_created\<lparr>alloc_plan := [True, True, False]\<rparr>)))"
    by simp
  from create_allocation_failure [OF h, of example_surface 1 1] h show ?thesis
    by simp
qed

section \<open>Show and hide\<close>

text \<open>
  Claim C2, as stated, fails: with a mouse, a handle, a focused window and its display
  all there, \<^verbatim>\<open>MALI_ShowCursor\<close> returns what the host's \<^verbatim>\<open>SDL_ShowCursor(1)\<close>
  returns, so a host call that answers \<open>-1\<close> makes the hook return an error although
  the mouse exists.
\<close>

theorem show_cursor_result_counterexample:
  "mouse (example_created\<lparr>show_result := - 1\<rparr>) = Some example_mouse \<and>
   MALI_ShowCursor (Some 1) (example_created\<lparr>show_result := - 1\<rparr>) =
     (- 1, example_created\<lparr>show_result := - 1,
                           calls := calls example_created @ [Call_SDL_ShowCursor 1]\<rparr>) \<and>
   sint (fst (MALI_ShowCursor (Some 1) (example_created\<lparr>show_result := - 1\<rparr>))) < 0"
  by (simp add: MALI_ShowCursor_def SDL_GetMouse_def SDL_GetDisplayForWindow_def
      SDL_ShowCursor_def example_created_def example_world_def example_mouse_def)

text \<open>
  Claim C2, amended. \<^verbatim>\<open>MALI_ShowCursor\<close> returns \<open>-1\<close> with the error "No mouse."
  when there is no mouse. With a mouse it returns 0 and changes nothing, so it binds
  no display, when the handle is \<open>NULL\<close>, when no window has the focus, or when the
  focused window has no display. In the one remaining case it calls
  \<^verbatim>\<open>SDL_ShowCursor(1)\<close> once and returns what that call returns. So the hook
  returns an error exactly when there is no mouse or when, in that remaining case,
  the host's call returns one.
\<close>

theorem show_cursor_result:
  "(mouse s = None \<longrightarrow>
      MALI_ShowCursor cursor s = (- 1, s\<lparr>sdl_err := Some (Message ''No mouse.'')\<rparr>)) \<and>
   (mouse s = Some m \<and>
    (cursor = None \<or> focus m = None \<or>
     (\<exists>window. focus m = Some window \<and> display_of s window = None)) \<longrightarrow>
      MALI_ShowCursor cursor s = (0, s)) \<and>
   (mouse s = Some m \<and> cursor \<noteq> None \<and> focus m = Some window \<and>
    display_of s window = Some display \<longrightarrow>
      MALI_ShowCursor cursor s =
        (show_result s, s\<lparr>calls := calls s @ [Call_SDL_ShowCursor 1]\<rparr>)) \<and>
   (sint (fst (MALI_ShowCursor cursor s)) < 0 \<longleftrightarrow>
      mouse s = None \<or>
      (\<exists>m window display. mouse s = Some m \<and> cursor \<noteq> None \<and> focus m = Some window \<and>
         display_of s window = Some display \<and> sint (show_result s) < 0))"
proof (intro conjI impI)
  assume "mouse s = None"
  then show "MALI_ShowCursor cursor s = (- 1, s\<lparr>sdl_err := Some (Message ''No mouse.'')\<rparr>)"
    by (simp add: MALI_ShowCursor_def SDL_GetMouse_def SDL_SetError_def)
next
  assume "mouse s = Some m \<and>
    (cursor = None \<or> focus m = None \<or>
     (\<exists>window. focus m = Some window \<and> display_of s window = None))"
  then show "MALI_ShowCursor cursor s = (0, s)"
    by (auto simp: MALI_ShowCursor_def SDL_GetMouse_def SDL_GetDisplayForWindow_def
        split: option.splits)
next
  assume "mouse s = Some m \<and> cursor \<noteq> None \<and> focus m = Some window \<and>
    display_of s window = Some display"
  then show "MALI_ShowCursor cursor s =
        (show_result s, s\<lparr>calls := calls s @ [Call_SDL_ShowCursor 1]\<rparr>)"
    by (auto simp: MALI_ShowCursor_def SDL_GetMouse_def SDL_GetDisplayForWindow_def
        SDL_ShowCursor_def)
next
  show "sint (fst (MALI_ShowCursor cursor s)) < 0 \<longleftrightarrow>
      mouse s = None \<or>
      (\<exists>m window display. mouse s = Some m \<and> cursor \<noteq> None \<and> focus m = Some window \<and>
         display_of s window = Some display \<and> sint (show_result s) < 0)"
    by (auto simp: MALI_ShowCursor_def SDL_GetMouse_def SDL_GetDisplayForWindow_def
        SDL_ShowCursor_def SDL_SetError_def split: option.splits)
qed

text \<open>Each outcome on the created cursor, from the theorem.\<close>

theorem show_cursor_result_witness:
  "MALI_ShowCursor (Some 1) (example_created\<lparr>mouse := None\<rparr>) =
     (- 1, example_created\<lparr>mouse := None, sdl_err := Some (Message ''No mouse.'')\<rparr>) \<and>
   MALI_ShowCursor None example_created = (0, example_created) \<and>
   MALI_ShowCursor (Some 1) (example_created\<lparr>mouse := Some (example_mouse\<lparr>focus := None\<rparr>)\<rparr>) =
     (0, example_created\<lparr>mouse := Some (example_mouse\<lparr>focus := None\<rparr>)\<rparr>) \<and>
   MALI_ShowCursor (Some 1) (example_created\<lparr>display_of := (\<lambda>window. None)\<rparr>) =
     (0, example_created\<lparr>display_of := (\<lambda>window. None)\<rparr>) \<and>
   MALI_ShowCursor (Some 1) example_created =
     (0, example_created\<lparr>calls := calls example_created @ [Call_SDL_ShowCursor 1]\<rparr>) \<and>
   mouse example_created \<noteq> None \<and>
   \<not> sint (show_result example_created) < 0 \<and>
   \<not> sint (fst (MALI_ShowCursor (Some 1) example_created)) < 0 \<and>
   sint (fst (MALI_ShowCursor (Some 1) (example_created\<lparr>mouse := None\<rparr>))) < 0"
proof -
  have no_mouse: "mouse (example_created\<lparr>mouse := None\<rparr>) = None" by simp
  have m: "mouse example_created = Some example_mouse"
    by (simp add: example_created_def example_world_def)
  have f: "focus example_mouse = Some 7" by (simp add: example_mouse_def)
  have d: "display_of example_created 7 = Some 9"
    by (simp add: example_created_def example_world_def)
  have r: "show_result example_created = 0"
    by (simp add: example_created_def example_world_def)
  from show_cursor_result [where s = "example_created\<lparr>mouse := None\<rparr>" and cursor = "Some 1"]
    no_mouse
  have 1: "MALI_ShowCursor (Some 1) (example_created\<lparr>mouse := None\<rparr>) =
     (- 1, example_created\<lparr>mouse := None, sdl_err := Some (Message ''No mouse.'')\<rparr>)"
    and 7: "sint (fst (MALI_ShowCursor (Some 1) (example_created\<lparr>mouse := None\<rparr>))) < 0"
    by simp_all
  from show_cursor_result [where s = example_created and m = example_mouse and cursor = None] m
  have 2: "MALI_ShowCursor None example_created = (0, example_created)"
    by simp
  from show_cursor_result
    [where s = "example_created\<lparr>mouse := Some (example_mouse\<lparr>focus := None\<rparr>)\<rparr>"
      and m = "example_mouse\<lparr>focus := None\<rparr>" and cursor = "Some 1"]
  have 3: "MALI_ShowCursor (Some 1)
       (example_created\<lparr>mouse := Some (example_mouse\<lparr>focus := None\<rparr>)\<rparr>) =
     (0, example_created\<lparr>mouse := Some (example_mouse\<lparr>focus := None\<rparr>)\<rparr>)"
    by simp
  from show_cursor_result [where s = "example_created\<lparr>display_of := (\<lambda>window. None)\<rparr>"
      and m = example_mouse and cursor = "Some 1"] m f
  have 4: "MALI_ShowCursor (Some 1) (example_created\<lparr>display_of := (\<lambda>window. None)\<rparr>) =
     (0, example_created\<lparr>display_of := (\<lambda>window. None)\<rparr>)"
    by simp
  from show_cursor_result [where s = example_created and m = example_mouse and cursor = "Some 1"
      and window = 7 and display = 9] m f d r
  have 5: "MALI_ShowCursor (Some 1) example_created =
     (0, example_created\<lparr>calls := calls example_created @ [Call_SDL_ShowCursor 1]\<rparr>)"
    by simp
  from show_cursor_result [where s = example_created and cursor = "Some 1"] m r
  have 6: "\<not> sint (fst (MALI_ShowCursor (Some 1) example_created)) < 0"
    by simp
  from 1 2 3 4 5 6 7 m r show ?thesis by simp
qed

section \<open>Warp\<close>

text \<open>
  Claim C3. When there is no mouse, no current cursor or no focused window,
  \<^verbatim>\<open>MALI_WarpMouseGlobal\<close> returns \<open>-1\<close> with the error "No mouse or current
  cursor." and does nothing else: the trace of host calls has no new entry (no
  motion is sent, no visual move is asked for), and the mouse with its recorded
  position and the heap are as before.
\<close>

theorem warp_global_rejected:
  assumes "mouse s = None \<or> (\<exists>m. mouse s = Some m \<and> (cur_cursor m = None \<or> focus m = None))"
  shows "MALI_WarpMouseGlobal x y s =
           (- 1, s\<lparr>sdl_err := Some (Message ''No mouse or current cursor.'')\<rparr>) \<and>
         calls (snd (MALI_WarpMouseGlobal x y s)) = calls s \<and>
         mouse (snd (MALI_WarpMouseGlobal x y s)) = mouse s \<and>
         heap (snd (MALI_WarpMouseGlobal x y s)) = heap s"
  using assms
  by (auto simp: MALI_WarpMouseGlobal_def SDL_GetMouse_def SDL_SetError_def)

text \<open>No current cursor: the recorded position stays at (10, 20).\<close>

theorem warp_global_rejected_witness:
  "mouse (example_created\<lparr>mouse := Some (example_mouse\<lparr>cur_cursor := None\<rparr>)\<rparr>) =
     Some (example_mouse\<lparr>cur_cursor := None\<rparr>) \<and>
   cur_cursor (example_mouse\<lparr>cur_cursor := None\<rparr>) = None \<and>
   MALI_WarpMouseGlobal 5 6 (example_created\<lparr>mouse := Some (example_mouse\<lparr>cur_cursor := None\<rparr>)\<rparr>) =
     (- 1, example_created\<lparr>mouse := Some (example_mouse\<lparr>cur_cursor := None\<rparr>),
                           sdl_err := Some (Message ''No mouse or current cursor.'')\<rparr>) \<and>
   map_option mouse_x (mouse (snd (MALI_WarpMouseGlobal 5 6
      (example_created\<lparr>mouse := Some (example_mouse\<lparr>cur_cursor := None\<rparr>)\<rparr>)))) = Some 10 \<and>
   map_option mouse_y (mouse (snd (MALI_WarpMouseGlobal 5 6
      (example_created\<lparr>mouse := Some (example_mouse\<lparr>cur_cursor := None\<rparr>)\<rparr>)))) = Some 20"
proof -
  let ?s = "example_created\<lparr>mouse := Some (example_mouse\<lparr>cur_cursor := None\<rparr>)\<rparr>"
  have h: "mouse ?s = None \<or>
      (\<exists>m. mouse ?s = Some m \<and> (cur_cursor m = None \<or> focus m = None))"
    by simp
  from warp_global_rejected [OF h, of 5 6] show ?thesis
    by (simp add: example_mouse_def)
qed

text \<open>
  Claim C4. When the mouse, a current cursor and a focused window are all there,
  \<^verbatim>\<open>MALI_WarpMouseGlobal(x, y)\<close> returns 0 and its whole effect is two host
  calls, in this order: \<^verbatim>\<open>SDL_SendMouseMotion\<close> on the focused window with
  \<^verbatim>\<open>relative = 0\<close> and the coordinates \<open>(x, y)\<close>, then
  \<^verbatim>\<open>SDL_WarpMouseInWindow\<close> on the same window with \<open>(x, y)\<close>.
\<close>

theorem warp_global_effects:
  assumes "mouse s = Some m" and "cur_cursor m \<noteq> None" and "focus m \<noteq> None"
  shows "MALI_WarpMouseGlobal x y s =
           (0, s\<lparr>calls := calls s @
                   [Call_SDL_SendMouseMotion (focus m) (mouseID m) 0 x y,
                    Call_SDL_WarpMouseInWindow (focus m) x y]\<rparr>)"
  using assms
  by (simp add: MALI_WarpMouseGlobal_def SDL_GetMouse_def SDL_SendMouseMotion_def
      SDL_WarpMouseInWindow_def)

theorem warp_global_effects_witness:
  "mouse example_created = Some example_mouse \<and> cur_cursor example_mouse \<noteq> None \<and>
   focus example_mouse \<noteq> None \<and>
   MALI_WarpMouseGlobal 5 6 example_created =
     (0, example_created\<lparr>calls := calls example_created @
           [Call_SDL_SendMouseMotion (Some 7) 0 0 5 6, Call_SDL_WarpMouseInWindow (Some 7) 5 6]\<rparr>)"
proof -
  have 1: "mouse example_created = Some example_mouse"
    by (simp add: example_created_def example_world_def)
  have 2: "cur_cursor example_mouse \<noteq> None" and 3: "focus example_mouse \<noteq> None"
    by (simp_all add: example_mouse_def)
  from warp_global_effects [OF 1 2 3, of 5 6] 1 2 3 show ?thesis
    by (simp add: example_mouse_def)
qed

section \<open>Move\<close>

text \<open>
  Claim C5. \<^verbatim>\<open>MALI_MoveCursor\<close> leaves the world as it is for every handle and
  every state of the mouse; in particular the trace of host calls gets no entry, so
  no motion event is sent.
\<close>

theorem move_cursor_emits_nothing:
  "MALI_MoveCursor cursor s = s \<and> calls (MALI_MoveCursor cursor s) = calls s"
  by (simp add: MALI_MoveCursor_def split: option.splits)

section \<open>The size of the pixel buffer\<close>

text \<open>
  Where the product of width, height and 4 fits in an \<^verbatim>\<open>int\<close>, the source's
  expression \<^verbatim>\<open>surface->w * surface->h * 4\<close> has that very value, and the buffer
  of a handle that \<^verbatim>\<open>MALI_CreateCursor\<close> returns has exactly that many bytes.
\<close>

lemma int_product_exact:
  fixes w h :: cint
  assumes "0 \<le> sint w" and "0 \<le> sint h" and "sint w * sint h * 4 < 2 ^ 31"
  shows "sint (w * h * 4) = sint w * sint h * 4"
proof -
  have pos: "uint x = sint x" if "0 \<le> sint x" for x :: cint
  proof -
    from sint_lt [of x] have "sint x < 2 ^ 32" by simp
    with that show ?thesis by (simp add: uint_sint take_bit_int_eq_self)
  qed
  have "uint (w * h * 4) = (uint w * uint h * 4) mod 2 ^ 32"
    by (simp add: uint_word_ariths mod_simps)
  also have "\<dots> = (sint w * sint h * 4) mod 2 ^ 32"
    by (simp add: pos assms(1) assms(2))
  also have "\<dots> = sint w * sint h * 4"
    using assms by (simp add: mod_pos_pos_trivial)
  finally have u: "uint (w * h * 4) = sint w * sint h * 4" .
  have "sint (w * h * 4) = signed_take_bit 31 (uint (w * h * 4))"
    by (simp add: sint_uint)
  also have "\<dots> = signed_take_bit 31 (sint w * sint h * 4)"
    by (simp only: u)
  also have "\<dots> = sint w * sint h * 4"
  proof (rule signed_take_bit_int_eq_self)
    from assms(1,2) have "0 \<le> sint w * sint h * 4" by simp
    moreover have "- (2 ^ 31) \<le> (0 :: int)" by simp
    ultimately show "- (2 ^ 31) \<le> sint w * sint h * 4" by (rule order_trans [rotated])
    from assms(3) show "sint w * sint h * 4 < 2 ^ 31" .
  qed
  finally show ?thesis .
qed

lemma created_buffer_exact:
  assumes "MALI_CreateCursor surface hx hy s = Inr (Some c, s')"
    and "0 \<le> sint (surface_w surface)" and "0 \<le> sint (surface_h surface)"
    and "sint (surface_w surface) * sint (surface_h surface) * 4 < 2 ^ 31"
  shows "\<exists>cd b. image_of c s' = Some cd \<and> buffer cd = Some b \<and>
           map_of (heap s') b =
             Some (Buffer_obj (nat (sint (surface_w surface) * sint (surface_h surface) * 4)))"
proof -
  let ?b = "Suc (Suc (fresh_addr (heap s)))"
  let ?cd = "new_curdata surface hx hy (Some ?b)"
  note c = image_of_created(1) [OF assms(1)]
  from image_of_created(2) [OF assms(1)] c have "image_of c s' = Some ?cd" by simp
  moreover have "buffer ?cd = Some ?b" by (simp add: new_curdata_def)
  moreover from image_of_created(3) [OF assms(1)] int_product_exact [OF assms(2-4)]
  have "map_of (heap s') ?b =
      Some (Buffer_obj (nat (sint (surface_w surface) * sint (surface_h surface) * 4)))"
    by (simp add: requested_bytes_def)
  ultimately show ?thesis by blast
qed

text \<open>
  Claim C6, the code at the failing input. For the 32768 by 32768 surface the buffer
  would have to hold \<open>2 ^ 32\<close> bytes. The source's \<^verbatim>\<open>int\<close> expression
  \<^verbatim>\<open>surface->w * surface->h * 4\<close> yields 0 there, so with every allocation
  succeeding \<^verbatim>\<open>MALI_CreateCursor\<close> asks for a block of 0 bytes (block 3) and the
  conversion then writes the \<open>2 ^ 32\<close> bytes of the image past its end: the call
  faults instead of returning an image with a buffer of \<open>w * h * 4\<close> bytes.
\<close>

theorem create_buffer_too_small:
  "MALI_CreateCursor wide_surface 0 0 example_world = Inl (Out_of_bounds 3 0) \<and>
   surface_w wide_surface * surface_h wide_surface * 4 = (0 :: cint) \<and>
   sint (surface_w wide_surface) * sint (surface_h wide_surface) * 4 = 4294967296"
proof -
  have "alloc_plan example_world = []" by (simp add: example_world_def)
  then have plan: "alloc_plan example_world = [] \<or> alloc_plan example_world = [True] \<or>
     alloc_plan example_world = [True, True] \<or>
     (\<exists>plan. alloc_plan example_world = True # True # True # plan)" by simp
  have zero: "surface_w wide_surface * surface_h wide_surface * 4 = (0 :: cint)"
    and math: "sint (surface_w wide_surface) * sint (surface_h wide_surface) * 4 = 4294967296"
    by (simp_all add: wide_surface_def)
  have nonneg: "0 \<le> sint (surface_w wide_surface * surface_h wide_surface * 4)"
    by (simp add: zero)
  have bytes: "requested_bytes wide_surface = 0"
    by (simp add: requested_bytes_def zero)
  have unfit: "\<not> writes_fit (surface_w wide_surface) (surface_h wide_surface)
      (surface_w wide_surface * 4) (requested_bytes wide_surface)"
    by (simp add: bytes) (simp add: writes_fit_def wide_surface_def)
  from create_faults [OF plan nonneg unfit, of 0 0]
  have "MALI_CreateCursor wide_surface 0 0 example_world = Inl (Out_of_bounds 3 0)"
    by (simp add: bytes) (simp add: example_world_def fresh_addr_def)
  with zero math show ?thesis by simp
qed

section \<open>The row pitch\<close>

text \<open>
  Claim C7, as stated, fails: for the 2 by 3 surface the recorded
  \<^verbatim>\<open>buffer_pitch\<close> is 2, the width, and not \<open>2 * 4 = 8\<close>.
\<close>

theorem create_pitch_counterexample:
  "MALI_CreateCursor example_surface 1 1 example_world = Inr (Some 1, example_created) \<and>
   map_option buffer_pitch (image_of 1 example_created) = Some 2 \<and>
   surface_w example_surface * 4 = 8 \<and>
   map_option buffer_pitch (image_of 1 example_created) \<noteq> Some (surface_w example_surface * 4)"
  using example_create
  by (simp add: image_of_def example_created_def example_world_def example_surface_def)

text \<open>
  Claim C7, amended. After a successful \<^verbatim>\<open>MALI_CreateCursor\<close> on a surface of
  width \<open>w\<close> the recorded \<^verbatim>\<open>buffer_pitch\<close> is \<open>w\<close> (the row length counted in
  32-bit pixels of the \<^verbatim>\<open>uint32_t\<close> buffer), and the one conversion call the
  function makes, \<^verbatim>\<open>SDL_PremultiplyAlpha\<close> into the new buffer with destination
  format ARGB8888, is given the destination pitch \<open>w * 4\<close>.
\<close>

theorem create_pitch:
  assumes "MALI_CreateCursor surface hx hy s = Inr (Some c, s')"
  shows "\<exists>cd b. image_of c s' = Some cd \<and> buffer cd = Some b \<and>
           buffer_pitch cd = surface_w surface \<and>
           calls s' = calls s @
             [Call_SDL_PremultiplyAlpha (surface_w surface) (surface_h surface)
                (surface_format surface) (surface_pixels surface) (surface_pitch surface)
                SDL_PIXELFORMAT_ARGB8888 b (surface_w surface * 4)]"
proof -
  let ?b = "Suc (Suc (fresh_addr (heap s)))"
  let ?cd = "new_curdata surface hx hy (Some ?b)"
  note c = image_of_created(1) [OF assms]
  from image_of_created(2) [OF assms] c have "image_of c s' = Some ?cd" by simp
  moreover have "buffer ?cd = Some ?b" "buffer_pitch ?cd = surface_w surface"
    by (simp_all add: new_curdata_def)
  moreover note image_of_created(4) [OF assms]
  ultimately show ?thesis by blast
qed

theorem create_pitch_witness:
  "MALI_CreateCursor example_surface 1 1 example_world = Inr (Some 1, example_created) \<and>
   (\<exists>cd b. image_of 1 example_created = Some cd \<and> buffer cd = Some b \<and>
      buffer_pitch cd = 2 \<and>
      calls example_created = calls example_world @
        [Call_SDL_PremultiplyAlpha 2 3 SDL_PIXELFORMAT_ARGB8888 (Some 100) 8
           SDL_PIXELFORMAT_ARGB8888 b 8])"
proof -
  from create_pitch [OF example_create] obtain cd b where
    "image_of 1 example_created = Some cd" "buffer cd = Some b"
    "buffer_pitch cd = surface_w example_surface"
    "calls example_created = calls example_world @
             [Call_SDL_PremultiplyAlpha (surface_w example_surface) (surface_h example_surface)
                (surface_format example_surface) (surface_pixels example_surface)
                (surface_pitch example_surface)
                SDL_PIXELFORMAT_ARGB8888 b (surface_w example_surface * 4)]"
    by blast
  then have "image_of 1 example_created = Some cd \<and> buffer cd = Some b \<and>
      buffer_pitch cd = 2 \<and>
      calls example_created = calls example_world @
        [Call_SDL_PremultiplyAlpha 2 3 SDL_PIXELFORMAT_ARGB8888 (Some 100) 8
           SDL_PIXELFORMAT_ARGB8888 b 8]"
    by (simp add: example_surface_def)
  with example_create show ?thesis by blast
qed

section \<open>Release of a handle\<close>

text \<open>
  Claim C8. On a live handle whose driver data is a live image, with a pixel buffer
  that is either \<open>NULL\<close> or a live block, \<^verbatim>\<open>MALI_FreeCursor\<close> does not fault and
  calls \<^verbatim>\<open>SDL_free\<close> on the buffer (if there is one), then on the image, then on
  the handle, on pairwise different addresses; afterwards exactly these addresses are
  gone from the heap. It sets no error and does not touch the mouse, and it does not
  depend on whether the cursor was ever shown (nothing is assumed on the mouse or on
  the trace).
\<close>

theorem free_cursor_releases:
  assumes "map_of (heap s) c = Some (Cursor_obj cur)" and "driverdata cur = Some d"
    and "map_of (heap s) d = Some (CursorData_obj cd)"
    and "buffer cd = None \<or> (\<exists>b n. buffer cd = Some b \<and> map_of (heap s) b = Some (Buffer_obj n))"
  shows "\<exists>s'. MALI_FreeCursor (Some c) s = Inr s' \<and>
           calls s' = calls s @
             map Call_SDL_free (case buffer cd of None \<Rightarrow> [d, c] | Some b \<Rightarrow> [b, d, c]) \<and>
           distinct (case buffer cd of None \<Rightarrow> [d, c] | Some b \<Rightarrow> [b, d, c]) \<and>
           map_of (heap s') =
             (\<lambda>a. if a = c \<or> a = d \<or> buffer cd = Some a then None else map_of (heap s) a) \<and>
           sdl_err s' = sdl_err s \<and> mouse s' = mouse s"
proof (cases "buffer cd")
  case None
  have "c \<noteq> d" using assms(1,3) by auto
  with free_cursor_without_buffer [OF assms(1-3) None] None show ?thesis
    by (auto simp: delete_conv')
next
  case (Some b)
  with assms(4) obtain n where b: "map_of (heap s) b = Some (Buffer_obj n)" by auto
  have "c \<noteq> d" "b \<noteq> d" "b \<noteq> c" using assms(1,3) b by auto
  with free_cursor_with_buffer [OF assms(1-3) Some b] Some show ?thesis
    by (auto simp: delete_conv')
qed

text \<open>A handle whose image never got its pixel buffer.\<close>

theorem free_cursor_releases_witness:
  "map_of (heap example_unbuffered) 1 = Some (Cursor_obj \<lparr>cursor_next = None, driverdata = Some 2\<rparr>) \<and>
   map_of (heap example_unbuffered) 2 = Some (CursorData_obj (new_curdata example_surface 1 1 None)) \<and>
   buffer (new_curdata example_surface 1 1 None) = None \<and>
   (\<exists>s'. MALI_FreeCursor (Some 1) example_unbuffered = Inr s' \<and>
      calls s' = [Call_SDL_free 2, Call_SDL_free 1] \<and>
      map_of (heap s') = (\<lambda>a. None) \<and>
      sdl_err s' = None \<and> mouse s' = Some example_mouse)"
proof -
  have 1: "map_of (heap example_unbuffered) 1 =
      Some (Cursor_obj \<lparr>cursor_next = None, driverdata = Some 2\<rparr>)"
    and 2: "driverdata \<lparr>cursor_next = None, driverdata = Some 2\<rparr> = Some 2"
    and 3: "map_of (heap example_unbuffered) 2 =
      Some (CursorData_obj (new_curdata example_surface 1 1 None))"
    and 4: "buffer (new_curdata example_surface 1 1 None) = None"
    by (simp_all add: example_unbuffered_def new_curdata_def)
  from 4 have 5: "buffer (new_curdata example_surface 1 1 None) = None \<or>
      (\<exists>b n. buffer (new_curdata example_surface 1 1 None) = Some b \<and>
         map_of (heap example_unbuffered) b = Some (Buffer_obj n))" by simp
  from free_cursor_releases [OF 1 2 3 5] obtain s' where
    "MALI_FreeCursor (Some 1) example_unbuffered = Inr s'"
    "calls s' = calls example_unbuffered @ [Call_SDL_free 2, Call_SDL_free 1]"
    "map_of (heap s') = (\<lambda>a. if a = 1 \<or> a = 2 then None else map_of (heap example_unbuffered) a)"
    "sdl_err s' = sdl_err example_unbuffered" "mouse s' = mouse example_unbuffered"
    by (auto simp: 4)
  then have "MALI_FreeCursor (Some 1) example_unbuffered = Inr s' \<and>
      calls s' = [Call_SDL_free 2, Call_SDL_free 1] \<and>
      map_of (heap s') = (\<lambda>a. None) \<and>
      sdl_err s' = None \<and> mouse s' = Some example_mouse"
    by (auto simp: example_unbuffered_def example_world_def)
  with 1 3 4 show ?thesis by blast
qed

section \<open>Warp in a window\<close>

text \<open>
  Claim C9. \<^verbatim>\<open>MALI_WarpMouse(window, x, y)\<close> leaves the world exactly as
  \<^verbatim>\<open>MALI_WarpMouseGlobal(x, y)\<close> does (host calls, error and all), whatever the
  window: two calls that differ only in the window end in the same world.
\<close>

theorem warp_mouse_ignores_window:
  "MALI_WarpMouse window x y s = snd (MALI_WarpMouseGlobal x y s) \<and>
   MALI_WarpMouse window x y s = MALI_WarpMouse window' x y s"
  by (simp add: MALI_WarpMouse_def)

section \<open>The handle a creation returns\<close>

text \<open>
  Claim C10. A handle that \<^verbatim>\<open>MALI_CreateCursor\<close> returns is a live cursor whose
  \<^verbatim>\<open>driverdata\<close> points to a live image; the image's buffer points to a live
  block, its hotspot is the \<open>hot_x\<close> and \<open>hot_y\<close> given, and its width and height
  are the surface's. On such a handle \<^verbatim>\<open>MALI_FreeCursor\<close> does not fault, and it
  gives back everything the creation allocated.
\<close>

theorem create_handle_well_formed:
  assumes "MALI_CreateCursor surface hx hy s = Inr (Some c, s')"
  shows "\<exists>cur d cd b n.
           map_of (heap s') c = Some (Cursor_obj cur) \<and> driverdata cur = Some d \<and>
           map_of (heap s') d = Some (CursorData_obj cd) \<and>
           buffer cd = Some b \<and> map_of (heap s') b = Some (Buffer_obj n) \<and>
           hot_x cd = hx \<and> hot_y cd = hy \<and>
           cur_w cd = surface_w surface \<and> cur_h cd = surface_h surface \<and>
           (\<exists>s''. MALI_FreeCursor (Some c) s' = Inr s'' \<and> heap s'' = heap s)"
proof -
  let ?c = "fresh_addr (heap s)"
  let ?d = "Suc ?c"
  let ?b = "Suc ?d"
  let ?cur = "\<lparr>cursor_next = None, driverdata = Some ?d\<rparr>"
  let ?cd = "new_curdata surface hx hy (Some ?b)"
  let ?n = "requested_bytes surface"
  from create_succeeds [OF create_returns_handle [OF assms], of hx hy] assms
  have c: "c = ?c" and
    h: "heap s' = (?b, Buffer_obj ?n) # (?d, CursorData_obj ?cd) # (?c, Cursor_obj ?cur) # heap s"
    by simp_all
  have 1: "map_of (heap s') ?c = Some (Cursor_obj ?cur)"
    and 2: "driverdata ?cur = Some ?d"
    and 3: "map_of (heap s') ?d = Some (CursorData_obj ?cd)"
    and 4: "buffer ?cd = Some ?b"
    and 5: "map_of (heap s') ?b = Some (Buffer_obj ?n)"
    by (simp_all add: h new_curdata_def)
  have fields: "hot_x ?cd = hx" "hot_y ?cd = hy" "cur_w ?cd = surface_w surface"
    "cur_h ?cd = surface_h surface"
    by (simp_all add: new_curdata_def)
  have "AList.delete ?c (AList.delete ?d (AList.delete ?b (heap s'))) = heap s"
    by (simp add: h fresh_addr_def)
  with free_cursor_with_buffer [OF 1 2 3 4 5]
  have "\<exists>s''. MALI_FreeCursor (Some ?c) s' = Inr s'' \<and> heap s'' = heap s"
    by simp
  with 1 2 3 4 5 fields c show ?thesis by blast
qed

theorem create_handle_well_formed_witness:
  "MALI_CreateCursor example_surface 1 1 example_world = Inr (Some 1, example_created) \<and>
   (\<exists>cur d cd b n.
      map_of (heap example_created) 1 = Some (Cursor_obj cur) \<and> driverdata cur = Some d \<and>
      map_of (heap example_created) d = Some (CursorData_obj cd) \<and>
      buffer cd = Some b \<and> map_of (heap example_created) b = Some (Buffer_obj n) \<and>
      hot_x cd = 1 \<and> hot_y cd = 1 \<and> cur_w cd = 2 \<and> cur_h cd = 3 \<and>
      (\<exists>s''. MALI_FreeCursor (Some 1) example_created = Inr s'' \<and> heap s'' = []))"
  using create_handle_well_formed [OF example_create] example_create
  by (simp add: example_surface_def example_world_def)

end
